theory Spec2Isabelle
  imports Complex_Main
begin

section \<open>The visualisation client (public/main.js): data model\<close>

text \<open>
  The client keeps its whole state in module-level variables and changes them in event
  callbacks (socket frames, pointer and keyboard events, buttons, a 100 ms timer). The
  model is a record of these variables; every callback is a function from the record to
  the new record and the list of effects it performed, in order.

  Numbers: cell coordinates, bounds, the viewport origin and pointer positions are
  integers (\<open>int\<close>); positions and radii of agents and resources are JSON numbers,
  modelled as \<open>real\<close> (rounding of doubles is not modelled).

  The repository holds the script twice: public/main.js, which is modelled here in
  full, and an earlier iteration of it. The two differ, as far as the state goes, in
  the reconnection delay (a constant in the earlier one), in \<open>addHazard\<close> and in
  \<open>resetSimulation\<close>; the last two are modelled in both versions, those of the earlier
  iteration under the names \<open>addHazard_stored\<close> and \<open>resetSimulation_stored\<close>.
\<close>

subsection \<open>Constants\<close>

definition CANVAS_SIZE_PX :: int where
  "CANVAS_SIZE_PX = 600"

definition MAP_SIZE_CELLS :: int where
  "MAP_SIZE_CELLS = 1000"

definition VIEWPORT_SIZE_CELLS :: int where
  "VIEWPORT_SIZE_CELLS = 100"

definition CELL_SIZE_PX :: int where
  "CELL_SIZE_PX = CANVAS_SIZE_PX div VIEWPORT_SIZE_CELLS"

definition maxReconnectDelay :: int where
  "maxReconnectDelay = 5000"

subsection \<open>JSON values and objects\<close>

datatype jsval = JNum real | JStr string | JBool bool | JNull

text \<open>
  An object decoded from a frame is a finite map from field names to values; a field
  that is absent reads as \<open>undefined\<close>, which is \<open>None\<close> here. Objects are never
  mutated in place by the client (an update always builds a new object), so holding a
  reference is holding the value.
\<close>

type_synonym jsobj = "string \<rightharpoonup> jsval"

text \<open>The object spread \<open>{ ...a, ...b }\<close>: the fields of \<open>b\<close> win.\<close>

definition spread :: "jsobj \<Rightarrow> jsobj \<Rightarrow> jsobj" where
  "spread a b = a ++ b"

text \<open>JavaScript truthiness of a field's value.\<close>

fun truthy :: "jsval option \<Rightarrow> bool" where
  "truthy None = False"
| "truthy (Some (JNum r)) = (r \<noteq> 0)"
| "truthy (Some (JStr s)) = (s \<noteq> [])"
| "truthy (Some (JBool b)) = b"
| "truthy (Some JNull) = False"

text \<open>
  A field read where the code needs a number (\<open>item.x\<close>, \<open>agent.radius\<close>). The wire
  protocol carries numbers there; a field that is absent gives \<open>NaN\<close> in every
  comparison and arithmetic of the source, which is \<open>None\<close> here. A field holding a
  string, a boolean or null is read as absent too (JavaScript would coerce it).
\<close>

fun num_field :: "jsobj \<Rightarrow> string \<Rightarrow> real option" where
  "num_field ob k = (case ob k of Some (JNum r) \<Rightarrow> Some r | _ \<Rightarrow> None)"

subsection \<open>Cells and their keys\<close>

text \<open>
  A cell of a chunk: its integer coordinates and its other fields (\<open>terrain\<close>,
  \<open>dust_storm\<close>, anything else the server sends).
\<close>

record cell =
  cell_x :: int
  cell_y :: int
  cell_fields :: jsobj

text \<open>The \<open>updates\<close> object of a \<open>map_cell_update\<close> frame: any subset of a cell's fields.\<close>

record cell_updates =
  upd_x :: "int option"
  upd_y :: "int option"
  upd_fields :: jsobj

text \<open>\<open>{ ...cell, ...updates }\<close> on a cell.\<close>

definition spread_cell :: "cell \<Rightarrow> cell_updates \<Rightarrow> cell" where
  "spread_cell c u =
     \<lparr> cell_x = (case upd_x u of None \<Rightarrow> cell_x c | Some v \<Rightarrow> v),
       cell_y = (case upd_y u of None \<Rightarrow> cell_y c | Some v \<Rightarrow> v),
       cell_fields = spread (cell_fields c) (upd_fields u) \<rparr>"

text \<open>
  The table of cells is keyed by the template string \<open>`${x},${y}`\<close>. An integer prints
  in decimal, with a minus sign when negative (the exponent notation JavaScript uses
  from \<open>1e21\<close> on is not modelled).
\<close>

fun digits :: "nat \<Rightarrow> string" where
  "digits n =
     (if n < 10 then [char_of (48 + n)]
      else digits (n div 10) @ [char_of (48 + n mod 10)])"

declare digits.simps [simp del]

definition show_int :: "int \<Rightarrow> string" where
  "show_int i = (if i < 0 then CHR ''-'' # digits (nat (- i)) else digits (nat i))"

definition cell_key :: "int \<Rightarrow> int \<Rightarrow> string" where
  "cell_key px py = show_int px @ CHR '','' # show_int py"

subsection \<open>The state variables\<close>

record state =
  wsOpen :: bool
  isRunning :: bool
  simulationStarted :: bool
  agents :: "jsobj list"
  resources :: "jsobj list"
  hazards :: "jsobj list"
  exploredCells :: "string set"
  selectedAgent :: "jsobj option"
  mapCells :: "string \<rightharpoonup> cell"
  mapMinX :: int
  mapMinY :: int
  mapMaxX :: int
  mapMaxY :: int
  viewportX :: int
  viewportY :: int
  isDragging :: bool
  lastMouseX :: int
  lastMouseY :: int
  reconnectAttempts :: nat

text \<open>The values the variables are declared with.\<close>

definition initial_state :: state where
  "initial_state =
     \<lparr> wsOpen = False, isRunning = False, simulationStarted = False,
       agents = [], resources = [], hazards = [], exploredCells = {},
       selectedAgent = None, mapCells = Map.empty,
       mapMinX = 0, mapMinY = 0, mapMaxX = 0, mapMaxY = 0,
       viewportX = 0, viewportY = 0,
       isDragging = False, lastMouseX = 0, lastMouseY = 0,
       reconnectAttempts = 0 \<rparr>"

subsection \<open>Effects\<close>

text \<open>
  What a callback does besides assigning variables. A call of \<open>render()\<close> or
  \<open>renderAgents()\<close> is recorded with the values the variables have at the moment of the
  call: that is all the function can read. The text of a log line is not modelled, only
  its sender; changes of button and panel visibility are not modelled.
\<close>

datatype outbound =
    StartSimulation string
  | RequestStatsAndMapData
  | Command string "jsval option"
  | PauseSimulation
  | ResumeSimulation
  | StopSimulation

datatype effect =
    Render state
  | RenderAgents state
  | AddMessage string
  | ClearMessages
  | UpdateStats
  | WsSend outbound
  | SetTimeout int

type_synonym 'a result = "'a \<times> effect list"

section \<open>Map initialisation and update\<close>

text \<open>One round of the \<open>forEach\<close> in \<open>initializeFullMap\<close>.\<close>

definition load_cell :: "cell \<Rightarrow> state \<Rightarrow> state" where
  "load_cell c s =
     s\<lparr> mapCells := (mapCells s)(cell_key (cell_x c) (cell_y c) \<mapsto> c),
        mapMinX := min (mapMinX s) (cell_x c),
        mapMinY := min (mapMinY s) (cell_y c),
        mapMaxX := max (mapMaxX s) (cell_x c),
        mapMaxY := max (mapMaxY s) (cell_y c) \<rparr>"

definition initializeFullMap :: "cell list \<Rightarrow> state \<Rightarrow> state result" where
  "initializeFullMap cells s =
     (let s1 = s\<lparr> mapCells := Map.empty,
                   mapMinX := MAP_SIZE_CELLS, mapMinY := MAP_SIZE_CELLS,
                   mapMaxX := 0, mapMaxY := 0 \<rparr>;
          s2 = fold load_cell cells s1
      in if length cells > 0
         then (let s3 = s2\<lparr> viewportX := mapMinX s2, viewportY := mapMinY s2 \<rparr>
               in (s3, [AddMessage ''System'', AddMessage ''System'', Render s3]))
         else (s2, [AddMessage ''System'', Render s2]))"

definition updateMapCell :: "int \<Rightarrow> int \<Rightarrow> cell_updates \<Rightarrow> state \<Rightarrow> state result" where
  "updateMapCell px py updates s =
     (let key = cell_key px py
      in case mapCells s key of
           Some c \<Rightarrow>
             (let s1 = s\<lparr> mapCells := (mapCells s)(key \<mapsto> spread_cell c updates) \<rparr>
              in (s1, [Render s1]))
         | None \<Rightarrow> (s, []))"

section \<open>The viewport\<close>

definition clampViewport :: "int \<Rightarrow> int \<Rightarrow> state \<Rightarrow> state" where
  "clampViewport px py s =
     (let maxViewX = mapMaxX s - VIEWPORT_SIZE_CELLS + 1;
          maxViewY = mapMaxY s - VIEWPORT_SIZE_CELLS + 1;
          newX = max (mapMinX s) (min px maxViewX);
          newY = max (mapMinY s) (min py maxViewY)
      in if mapMaxX s = 0 \<and> mapMinX s = MAP_SIZE_CELLS
         then s\<lparr> viewportX := 0, viewportY := 0 \<rparr>
         else s\<lparr> viewportX := newX, viewportY := newY \<rparr>)"

section \<open>The dispatcher's handlers\<close>

text \<open>\<open>Array.prototype.findIndex\<close>: the first index whose element passes, \<open>None\<close> for -1.\<close>

fun findIndex :: "('a \<Rightarrow> bool) \<Rightarrow> 'a list \<Rightarrow> nat option" where
  "findIndex P [] = None"
| "findIndex P (a # as) = (if P a then Some 0 else map_option Suc (findIndex P as))"

text \<open>
  The comparison \<open>a.id === b.id\<close>: strict equality of two field reads. On the values
  JSON can carry it is equality of the values; two absent fields are both
  \<open>undefined\<close> and equal.
\<close>

definition same_id :: "jsobj \<Rightarrow> jsobj \<Rightarrow> bool" where
  "same_id a b = (a ''id'' = b ''id'')"

definition updateAgent :: "jsobj \<Rightarrow> state \<Rightarrow> state result" where
  "updateAgent agentData s =
     (let s1 = (case findIndex (\<lambda>a. same_id a agentData) (agents s) of
                  Some index \<Rightarrow>
                    s\<lparr> agents := (agents s)[index := spread (agents s ! index) agentData] \<rparr>
                | None \<Rightarrow> s\<lparr> agents := agents s @ [agentData] \<rparr>)
      in (s1, [RenderAgents s1, Render s1]))"

definition addResource :: "jsobj \<Rightarrow> state \<Rightarrow> state result" where
  "addResource resource s =
     (case find (\<lambda>r. same_id r resource) (resources s) of
        None \<Rightarrow>
          (let s1 = s\<lparr> resources := resources s @ [resource(''discovered'' \<mapsto> JBool True)] \<rparr>
           in (s1, [AddMessage ''Discovery'', Render s1]))
      | Some r \<Rightarrow> (s, [Render s]))"

text \<open>\<open>addHazard\<close> of public/main.js: a log line and a redraw; nothing is stored.\<close>

definition addHazard :: "jsobj \<Rightarrow> state \<Rightarrow> state result" where
  "addHazard hazard s = (s, [AddMessage ''Alert'', Render s])"

text \<open>
  \<open>addHazard\<close> of the earlier iteration of the client (the second copy of the script in
  the repository), which keeps the hazards it has seen.
\<close>

definition addHazard_stored :: "jsobj \<Rightarrow> state \<Rightarrow> state result" where
  "addHazard_stored hazard s =
     (case find (\<lambda>h. same_id h hazard) (hazards s) of
        None \<Rightarrow>
          (let s1 = s\<lparr> hazards := hazards s @ [hazard] \<rparr>
           in (s1, [AddMessage ''Alert'', Render s1]))
      | Some h \<Rightarrow> (s, [Render s]))"

definition markCellExplored :: "int \<Rightarrow> int \<Rightarrow> state \<Rightarrow> state result" where
  "markCellExplored px py s =
     (let s1 = s\<lparr> exploredCells := insert (cell_key px py) (exploredCells s) \<rparr>
      in (s1, [Render s1]))"

text \<open>
  A decoded frame, by its \<open>type\<close> field; \<open>OtherMessage\<close> is any type the switch does
  not list. The frames are those of the wire protocol: each carries the fields its
  handler reads (a frame without them makes the handler throw a \<open>TypeError\<close> in the
  source, which is not modelled).
\<close>

datatype message =
    FullMapInit "cell list"
  | UpdateMap "cell list"
  | MapCellUpdate int int cell_updates
  | AgentUpdate jsobj
  | ResourceDiscovered jsobj
  | HazardDetected jsobj
  | CellExplored int int
  | LogMessage string
  | Stats
  | SimulationStarted
  | SimulationStopped
  | SimulationPaused
  | SimulationResumed
  | ErrorMessage
  | OtherMessage

fun handleMessage :: "message \<Rightarrow> state \<Rightarrow> state result" where
  "handleMessage (FullMapInit map_cells) s = initializeFullMap map_cells s"
| "handleMessage (UpdateMap map_cells) s = initializeFullMap map_cells s"
| "handleMessage (MapCellUpdate px py updates) s = updateMapCell px py updates s"
| "handleMessage (AgentUpdate agent) s = updateAgent agent s"
| "handleMessage (ResourceDiscovered resource) s = addResource resource s"
| "handleMessage (HazardDetected hazard) s = addHazard hazard s"
| "handleMessage (CellExplored px py) s = markCellExplored px py s"
| "handleMessage (LogMessage sender) s = (s, [AddMessage sender])"
| "handleMessage Stats s = (s, [UpdateStats])"
| "handleMessage SimulationStarted s = (s, [AddMessage ''System''])"
| "handleMessage SimulationStopped s =
     (s\<lparr> simulationStarted := False \<rparr>, [AddMessage ''System''])"
| "handleMessage SimulationPaused s = (s, [AddMessage ''System''])"
| "handleMessage SimulationResumed s = (s, [AddMessage ''System''])"
| "handleMessage ErrorMessage s = (s, [AddMessage ''Error''])"
| "handleMessage OtherMessage s = (s, [])"

section \<open>The connection\<close>

text \<open>
  \<open>wsOpen\<close> stands for \<open>ws && ws.readyState === WebSocket.OPEN\<close>. \<open>connectWebSocket\<close>
  replaces the socket by a new one that is still connecting; when the constructor throws,
  the \<open>catch\<close> block schedules another call after one second.
\<close>

definition connectWebSocket :: "bool \<Rightarrow> state \<Rightarrow> state result" where
  "connectWebSocket throws s =
     (if throws then (s, [SetTimeout 1000]) else (s\<lparr> wsOpen := False \<rparr>, []))"

text \<open>\<open>window.onload\<close>: connect, draw, log.\<close>

definition onload :: "bool \<Rightarrow> state \<Rightarrow> state result" where
  "onload throws s =
     (let s1 = fst (connectWebSocket throws s)
      in (s1, snd (connectWebSocket throws s) @ [Render s1, AddMessage ''System'']))"

definition onopen :: "state \<Rightarrow> state result" where
  "onopen s = (s\<lparr> wsOpen := True, reconnectAttempts := 0 \<rparr>, [AddMessage ''System''])"

definition onerror :: "state \<Rightarrow> state result" where
  "onerror s = (s, [])"

text \<open>
  The delay of the reconnect that \<open>onclose\<close> schedules, from the counter after its
  increment: \<open>Math.min(500 * Math.pow(2, reconnectAttempts - 1), maxReconnectDelay)\<close>.
\<close>

definition reconnect_delay :: "nat \<Rightarrow> int" where
  "reconnect_delay attempts = min (500 * 2 ^ (attempts - 1)) maxReconnectDelay"

definition onclose :: "state \<Rightarrow> state result" where
  "onclose s =
     (let s1 = s\<lparr> wsOpen := False, reconnectAttempts := reconnectAttempts s + 1 \<rparr>
      in (s1, [SetTimeout (reconnect_delay (reconnectAttempts s1))]))"

section \<open>Buttons\<close>

text \<open>\<open>startSimulation\<close> and \<open>cancelStartSimulation\<close> show and hide a panel and log a line.\<close>

definition startSimulation :: "state \<Rightarrow> state result" where
  "startSimulation s = (s, [AddMessage ''System''])"

definition cancelStartSimulation :: "state \<Rightarrow> state result" where
  "cancelStartSimulation s = (s, [AddMessage ''System''])"

text \<open>\<open>configFile\<close> is the trimmed text of the input field.\<close>

definition confirmStartSimulation :: "string \<Rightarrow> state \<Rightarrow> state result" where
  "confirmStartSimulation configFile s =
     (if configFile = [] then (s, [AddMessage ''System''])
      else if wsOpen s
      then (s\<lparr> simulationStarted := True \<rparr>,
            [WsSend (StartSimulation configFile), AddMessage ''System'',
             WsSend RequestStatsAndMapData])
      else (s, [AddMessage ''System'']))"

definition toggleSimulation :: "state \<Rightarrow> state result" where
  "toggleSimulation s =
     (if \<not> simulationStarted s then (s, [AddMessage ''System''])
      else
        (let s1 = s\<lparr> isRunning := \<not> isRunning s \<rparr>
         in if wsOpen s1
            then (if isRunning s1
                  then (s1, [WsSend ResumeSimulation, AddMessage ''System''])
                  else (s1, [WsSend PauseSimulation, AddMessage ''System'']))
            else (s1, [AddMessage ''System''])))"

definition sendCommand :: "string \<Rightarrow> state \<Rightarrow> state result" where
  "sendCommand command s =
     (case selectedAgent s of
        Some a \<Rightarrow>
          (if wsOpen s then (s, [WsSend (Command command (a ''id'')), AddMessage ''Command''])
           else (s, [AddMessage ''System'']))
      | None \<Rightarrow> (s, [AddMessage ''System'']))"

definition resetSimulation :: "state \<Rightarrow> state result" where
  "resetSimulation s =
     (let stopping = (if simulationStarted s \<and> wsOpen s
                      then [WsSend StopSimulation, AddMessage ''System''] else []);
          s1 = s\<lparr> agents := [], resources := [], exploredCells := {},
                   mapCells := Map.empty, selectedAgent := None,
                   viewportX := 0, viewportY := 0,
                   mapMinX := 0, mapMinY := 0, mapMaxX := 0, mapMaxY := 0,
                   simulationStarted := False \<rparr>
      in (s1, stopping @ [ClearMessages, RenderAgents s1, Render s1, AddMessage ''System'']))"

text \<open>\<open>resetSimulation\<close> of the earlier iteration of the client.\<close>

definition resetSimulation_stored :: "state \<Rightarrow> state result" where
  "resetSimulation_stored s =
     (let s1 = s\<lparr> agents := [], resources := [], hazards := [], exploredCells := {},
                   mapCells := Map.empty, selectedAgent := None,
                   viewportX := 0, viewportY := 0,
                   mapMinX := 0, mapMinY := 0, mapMaxX := 0, mapMaxY := 0 \<rparr>
      in (s1, [ClearMessages, RenderAgents s1, Render s1, AddMessage ''System'']))"

section \<open>Selection, panning and the timer\<close>

text \<open>\<open>agent.x >= mapMinX && agent.x <= mapMaxX && agent.y >= mapMinY && agent.y <= mapMaxY\<close>.\<close>

definition isOnMap :: "jsobj \<Rightarrow> state \<Rightarrow> bool" where
  "isOnMap agent s =
     (case (num_field agent ''x'', num_field agent ''y'') of
        (Some ax, Some ay) \<Rightarrow>
          ax \<ge> of_int (mapMinX s) \<and> ax \<le> of_int (mapMaxX s) \<and>
          ay \<ge> of_int (mapMinY s) \<and> ay \<le> of_int (mapMaxY s)
      | _ \<Rightarrow> False)"

definition selectAgent :: "jsobj \<Rightarrow> state \<Rightarrow> state result" where
  "selectAgent agent s =
     (let s1 = s\<lparr> selectedAgent := Some agent \<rparr>
      in (s1, (if isOnMap agent s1 then [] else [AddMessage ''System''])
              @ [RenderAgents s1, Render s1]))"

text \<open>A click on the entry of the agents list that was built for \<open>agents[i]\<close>.\<close>

definition agentItemClick :: "nat \<Rightarrow> state \<Rightarrow> state result" where
  "agentItemClick i s = (if i < length (agents s) then selectAgent (agents s ! i) s else (s, []))"

text \<open>
  The canvas click handler; \<open>px\<close> and \<open>py\<close> are the pointer's offsets from the canvas
  corner, in pixels.
\<close>

definition floors_to :: "jsobj \<Rightarrow> string \<Rightarrow> int \<Rightarrow> bool" where
  "floors_to agent k w = (case num_field agent k of Some r \<Rightarrow> \<lfloor>r\<rfloor> = w | None \<Rightarrow> False)"

definition canvasClick :: "int \<Rightarrow> int \<Rightarrow> state \<Rightarrow> state result" where
  "canvasClick px py s =
     (let viewportCellX = px div CELL_SIZE_PX;
          viewportCellY = py div CELL_SIZE_PX;
          worldX = viewportX s + viewportCellX;
          worldY = viewportY s + viewportCellY
      in case find (\<lambda>agent. floors_to agent ''x'' worldX \<and> floors_to agent ''y'' worldY) (agents s) of
           Some clicked \<Rightarrow> selectAgent clicked s
         | None \<Rightarrow> (s, []))"

definition mousedown :: "int \<Rightarrow> int \<Rightarrow> state \<Rightarrow> state result" where
  "mousedown clientX clientY s =
     (s\<lparr> isDragging := True, lastMouseX := clientX, lastMouseY := clientY \<rparr>, [])"

definition mouseup :: "state \<Rightarrow> state result" where
  "mouseup s = (s\<lparr> isDragging := False \<rparr>, [])"

definition mousemove :: "int \<Rightarrow> int \<Rightarrow> state \<Rightarrow> state result" where
  "mousemove clientX clientY s =
     (if \<not> isDragging s \<or> mapMaxX s = 0 then (s, [])
      else
        (let deltaX = clientX - lastMouseX s;
             deltaY = clientY - lastMouseY s;
             cellStepX = deltaX div CELL_SIZE_PX;
             cellStepY = deltaY div CELL_SIZE_PX;
             potentialX = viewportX s - cellStepX;
             potentialY = viewportY s - cellStepY;
             s1 = clampViewport potentialX potentialY s;
             s2 = s1\<lparr> lastMouseX := clientX, lastMouseY := clientY \<rparr>
         in (s2, [Render s2])))"

datatype key = ArrowRight | ArrowLeft | ArrowDown | ArrowUp | OtherKey

definition keydown :: "key \<Rightarrow> state \<Rightarrow> state result" where
  "keydown k s =
     (if mapMaxX s = 0 then (s, [])
      else
        (case k of
           ArrowRight \<Rightarrow> (let s1 = clampViewport (viewportX s + 1) (viewportY s) s in (s1, [Render s1]))
         | ArrowLeft \<Rightarrow> (let s1 = clampViewport (viewportX s - 1) (viewportY s) s in (s1, [Render s1]))
         | ArrowDown \<Rightarrow> (let s1 = clampViewport (viewportX s) (viewportY s + 1) s in (s1, [Render s1]))
         | ArrowUp \<Rightarrow> (let s1 = clampViewport (viewportX s) (viewportY s - 1) s in (s1, [Render s1]))
         | OtherKey \<Rightarrow> (s, [])))"

text \<open>\<open>setInterval(render, 100)\<close>.\<close>

definition tick :: "state \<Rightarrow> state result" where
  "tick s = (s, [Render s])"

section \<open>Events\<close>

text \<open>Everything that can run a callback of the script, and the callback it runs.\<close>

datatype event =
    Load bool
  | Connect bool
  | SocketOpen
  | SocketError
  | SocketClose
  | SocketMessage message
  | StartButton
  | CancelStart
  | ConfirmStart string
  | Toggle
  | SendCommand string
  | Reset
  | AgentItemClick nat
  | CanvasClick int int
  | MouseDown int int
  | MouseUp
  | MouseMove int int
  | KeyDown key
  | Tick

fun step :: "event \<Rightarrow> state \<Rightarrow> state result" where
  "step (Load throws) s = onload throws s"
| "step (Connect throws) s = connectWebSocket throws s"
| "step SocketOpen s = onopen s"
| "step SocketError s = onerror s"
| "step SocketClose s = onclose s"
| "step (SocketMessage m) s = handleMessage m s"
| "step StartButton s = startSimulation s"
| "step CancelStart s = cancelStartSimulation s"
| "step (ConfirmStart configFile) s = confirmStartSimulation configFile s"
| "step Toggle s = toggleSimulation s"
| "step (SendCommand command) s = sendCommand command s"
| "step Reset s = resetSimulation s"
| "step (AgentItemClick i) s = agentItemClick i s"
| "step (CanvasClick px py) s = canvasClick px py s"
| "step (MouseDown clientX clientY) s = mousedown clientX clientY s"
| "step MouseUp s = mouseup s"
| "step (MouseMove clientX clientY) s = mousemove clientX clientY s"
| "step (KeyDown k) s = keydown k s"
| "step Tick s = tick s"

text \<open>The states the script can be in: from the declared values, by any events.\<close>

inductive reachable :: "state \<Rightarrow> bool" where
  reachable_initial: "reachable initial_state"
| reachable_step: "reachable s \<Longrightarrow> reachable (fst (step e s))"


section \<open>Rendering\<close>

text \<open>
  \<open>render\<close> talks to the 2D context of the canvas only. The context keeps the styles and
  the current path between calls; what reaches the screen is the sequence of drawing
  operations, each with the style and path it was issued with. Arcs are always full
  circles (from 0 to \<open>2 * Math.PI\<close>), so an arc is its centre and radius. A style is
  stored as the string assigned (the canvas's own parsing of colours is not modelled).
\<close>

datatype path_step =
    MoveTo real real
  | LineTo real real
  | Arc real real real
  | Rect real real real real
  | ClosePath

datatype draw_op =
    ClearRect real real real real
  | FillRect string real real real real
  | Stroke string real "path_step list"
  | Fill string "path_step list"

record canvas_ctx =
  fillStyle :: string
  strokeStyle :: string
  lineWidth :: real
  path :: "path_step list"

type_synonym canvas = "canvas_ctx \<times> draw_op list"

fun clearRect :: "real \<Rightarrow> real \<Rightarrow> real \<Rightarrow> real \<Rightarrow> canvas \<Rightarrow> canvas" where
  "clearRect px py w h (c, ops) = (c, ops @ [ClearRect px py w h])"

fun set_fillStyle :: "string \<Rightarrow> canvas \<Rightarrow> canvas" where
  "set_fillStyle v (c, ops) = (c\<lparr> fillStyle := v \<rparr>, ops)"

fun set_strokeStyle :: "string \<Rightarrow> canvas \<Rightarrow> canvas" where
  "set_strokeStyle v (c, ops) = (c\<lparr> strokeStyle := v \<rparr>, ops)"

fun set_lineWidth :: "real \<Rightarrow> canvas \<Rightarrow> canvas" where
  "set_lineWidth v (c, ops) = (c\<lparr> lineWidth := v \<rparr>, ops)"

fun fillRect :: "real \<Rightarrow> real \<Rightarrow> real \<Rightarrow> real \<Rightarrow> canvas \<Rightarrow> canvas" where
  "fillRect px py w h (c, ops) = (c, ops @ [FillRect (fillStyle c) px py w h])"

fun beginPath :: "canvas \<Rightarrow> canvas" where
  "beginPath (c, ops) = (c\<lparr> path := [] \<rparr>, ops)"

fun add_step :: "path_step \<Rightarrow> canvas \<Rightarrow> canvas" where
  "add_step p (c, ops) = (c\<lparr> path := path c @ [p] \<rparr>, ops)"

definition moveTo :: "real \<Rightarrow> real \<Rightarrow> canvas \<Rightarrow> canvas" where
  "moveTo px py = add_step (MoveTo px py)"

definition lineTo :: "real \<Rightarrow> real \<Rightarrow> canvas \<Rightarrow> canvas" where
  "lineTo px py = add_step (LineTo px py)"

definition arc :: "real \<Rightarrow> real \<Rightarrow> real \<Rightarrow> canvas \<Rightarrow> canvas" where
  "arc px py r = add_step (Arc px py r)"

definition rect :: "real \<Rightarrow> real \<Rightarrow> real \<Rightarrow> real \<Rightarrow> canvas \<Rightarrow> canvas" where
  "rect px py w h = add_step (Rect px py w h)"

definition closePath :: "canvas \<Rightarrow> canvas" where
  "closePath = add_step ClosePath"

fun stroke :: "canvas \<Rightarrow> canvas" where
  "stroke (c, ops) = (c, ops @ [Stroke (strokeStyle c) (lineWidth c) (path c)])"

fun fill :: "canvas \<Rightarrow> canvas" where
  "fill (c, ops) = (c, ops @ [Fill (fillStyle c) (path c)])"

text \<open>Statements in sequence.\<close>

fun seq :: "('a \<Rightarrow> 'a) list \<Rightarrow> 'a \<Rightarrow> 'a" where
  "seq [] cv = cv"
| "seq (f # fs) cv = seq fs (f cv)"

text \<open>\<open>CELL_SIZE_PX\<close> as a number of pixels on the canvas.\<close>

definition cell_px :: real where
  "cell_px = of_int CELL_SIZE_PX"

text \<open>The body of the two nested loops over the viewport's cells.\<close>

definition terrainColor :: "cell \<Rightarrow> string" where
  "terrainColor c =
     (if cell_fields c ''terrain'' = Some (JNum 1) then ''rgba(209, 213, 219, 0.2)''
      else if cell_fields c ''terrain'' = Some (JNum (- 1)) then ''rgba(30, 41, 59, 0.6)''
      else ''rgba(75, 85, 99, 0.3)'')"

definition draw_cell :: "state \<Rightarrow> int \<Rightarrow> int \<Rightarrow> canvas \<Rightarrow> canvas" where
  "draw_cell s vx vy =
     (let worldX = viewportX s + vx;
          worldY = viewportY s + vy;
          key = cell_key worldX worldY;
          drawX = of_int (vx * CELL_SIZE_PX);
          drawY = of_int (vy * CELL_SIZE_PX)
      in case mapCells s key of
           Some c \<Rightarrow>
             seq ([set_fillStyle (terrainColor c), fillRect drawX drawY cell_px cell_px]
                  @ (if key \<in> exploredCells s
                     then [set_fillStyle ''rgba(59, 130, 246, 0.1)'',
                           fillRect drawX drawY cell_px cell_px]
                     else [])
                  @ (if truthy (cell_fields c ''dust_storm'')
                     then [set_fillStyle ''rgba(239, 181, 73, 0.7)'',
                           fillRect drawX drawY cell_px cell_px]
                     else []))
         | None \<Rightarrow> seq [set_fillStyle ''#0f172a'', fillRect drawX drawY cell_px cell_px])"

definition draw_terrain :: "state \<Rightarrow> canvas \<Rightarrow> canvas" where
  "draw_terrain s =
     fold (\<lambda>vx. fold (\<lambda>vy. draw_cell s vx vy) [0..VIEWPORT_SIZE_CELLS - 1])
       [0..VIEWPORT_SIZE_CELLS - 1]"

text \<open>One round of the grid loop: a vertical and a horizontal line.\<close>

definition grid_line :: "int \<Rightarrow> canvas \<Rightarrow> canvas" where
  "grid_line i =
     seq [beginPath,
          moveTo (of_int (i * CELL_SIZE_PX)) 0,
          lineTo (of_int (i * CELL_SIZE_PX)) (of_int (VIEWPORT_SIZE_CELLS * CELL_SIZE_PX)),
          stroke,
          beginPath,
          moveTo 0 (of_int (i * CELL_SIZE_PX)),
          lineTo (of_int (VIEWPORT_SIZE_CELLS * CELL_SIZE_PX)) (of_int (i * CELL_SIZE_PX)),
          stroke]"

definition draw_grid :: "canvas \<Rightarrow> canvas" where
  "draw_grid =
     seq [set_strokeStyle ''#374151'', set_lineWidth 0.5,
          fold grid_line [0..VIEWPORT_SIZE_CELLS]]"

text \<open>
  \<open>agent.color || d\<close> and \<open>agent.radius || d\<close>: the field when it is truthy, the default
  otherwise. The wire protocol carries a string and a number there.
\<close>

definition style_or :: "jsval option \<Rightarrow> string \<Rightarrow> string" where
  "style_or v d = (case v of Some (JStr t) \<Rightarrow> (if t = [] then d else t) | _ \<Rightarrow> d)"

definition number_or :: "jsval option \<Rightarrow> real \<Rightarrow> real" where
  "number_or v d = (case v of Some (JNum r) \<Rightarrow> (if r = 0 then d else r) | _ \<Rightarrow> d)"

text \<open>\<open>selectedAgent?.id\<close>.\<close>

definition selected_id :: "state \<Rightarrow> jsval option" where
  "selected_id s = (case selectedAgent s of None \<Rightarrow> None | Some a \<Rightarrow> a ''id'')"

text \<open>The glyph of an item that is inside the viewport, drawn around \<open>(drawX, drawY)\<close>.\<close>

definition draw_glyph :: "state \<Rightarrow> jsobj \<Rightarrow> real \<Rightarrow> real \<Rightarrow> (canvas \<Rightarrow> canvas) list" where
  "draw_glyph s item drawX drawY =
     (let shapeSize = cell_px
      in [set_fillStyle (style_or (item ''color'') ''#ffffff''), beginPath]
         @ (if item ''discovered'' \<noteq> None
            then [set_fillStyle (if truthy (item ''discovered'') then ''rgba(59, 130, 246, 0.9)''
                                 else ''rgba(16, 185, 129, 0.3)''),
                  beginPath, arc drawX drawY (cell_px * 0.4), fill]
                 @ (if truthy (item ''discovered'')
                    then [set_strokeStyle ''#10b981'', set_lineWidth 2, stroke] else [])
            else if item ''type'' = Some (JStr ''rover'')
            then [rect (drawX - shapeSize / 2) (drawY - shapeSize / 2) shapeSize shapeSize, fill]
            else if item ''type'' = Some (JStr ''drone'')
            then [moveTo drawX (drawY - shapeSize / 2),
                  lineTo (drawX + shapeSize / 2) (drawY + shapeSize / 2),
                  lineTo (drawX - shapeSize / 2) (drawY + shapeSize / 2),
                  closePath, fill,
                  set_strokeStyle (style_or (item ''color'') ''#8b5cf6''), set_lineWidth 2,
                  beginPath, arc drawX drawY (number_or (item ''radius'') 5 * cell_px), stroke]
            else if item ''type'' = Some (JStr ''base'')
            then [set_strokeStyle (style_or (item ''color'') ''#8b5cf6''), set_lineWidth 2,
                  arc drawX drawY (number_or (item ''radius'') 5 * cell_px), stroke,
                  set_fillStyle (style_or (item ''color'') ''#8b5cf6''),
                  beginPath, arc drawX drawY (cell_px * 0.3), fill]
            else [])
         @ (if selected_id s = item ''id''
            then [set_strokeStyle ''#ffffff'', set_lineWidth 2, beginPath,
                  arc drawX drawY (cell_px * 0.8), stroke]
            else []))"

text \<open>The body of the loop over \<open>[...resources, ...agents]\<close>.\<close>

definition draw_item :: "state \<Rightarrow> jsobj \<Rightarrow> canvas \<Rightarrow> canvas" where
  "draw_item s item cv =
     (case (num_field item ''x'', num_field item ''y'') of
        (Some ix, Some iy) \<Rightarrow>
          (if ix \<ge> of_int (viewportX s) \<and> ix < of_int (viewportX s + VIEWPORT_SIZE_CELLS) \<and>
              iy \<ge> of_int (viewportY s) \<and> iy < of_int (viewportY s + VIEWPORT_SIZE_CELLS)
           then seq (draw_glyph s item
                       ((ix - of_int (viewportX s)) * cell_px + cell_px / 2)
                       ((iy - of_int (viewportY s)) * cell_px + cell_px / 2)) cv
           else cv)
      | _ \<Rightarrow> cv)"

text \<open>
  \<open>render\<close>, as a function of the variables it reads and of the context it finds: the
  context it leaves and the operations it issued.
\<close>

definition paint :: "state \<Rightarrow> canvas_ctx \<Rightarrow> canvas" where
  "paint s c =
     seq [clearRect 0 0 (of_int (VIEWPORT_SIZE_CELLS * CELL_SIZE_PX))
                        (of_int (VIEWPORT_SIZE_CELLS * CELL_SIZE_PX)),
          draw_terrain s,
          draw_grid,
          fold (draw_item s) (resources s @ agents s)] (c, [])"

text \<open>
  A call of \<open>render()\<close> on the whole program state: the variables, and the canvas
  context with the operations of this frame.
\<close>

definition render :: "state \<times> canvas_ctx \<Rightarrow> state \<times> canvas" where
  "render w = (fst w, paint (fst w) (snd w))"

section \<open>Notions used in the statements\<close>

text \<open>The state after a list of events, from a given state.\<close>

fun run :: "event list \<Rightarrow> state \<Rightarrow> state" where
  "run [] s = s"
| "run (e # es) s = run es (fst (step e s))"

text \<open>
  The table that the cells of a chunk make when they are stored one after the other
  under their keys: of two cells with the same key, the later one stays.
\<close>

definition chunk_table :: "cell list \<Rightarrow> (string \<rightharpoonup> cell)" where
  "chunk_table cells = map_of (rev (map (\<lambda>c. (cell_key (cell_x c) (cell_y c), c)) cells))"

text \<open>
  A cell of open terrain, and the chunk with one such cell at every coordinate of a
  square.
\<close>

definition open_cell :: "int \<Rightarrow> int \<Rightarrow> cell" where
  "open_cell px py = \<lparr> cell_x = px, cell_y = py, cell_fields = [''terrain'' \<mapsto> JNum 0] \<rparr>"

definition square_chunk :: "int \<Rightarrow> int \<Rightarrow> cell list" where
  "square_chunk lo hi = concat (map (\<lambda>px. map (\<lambda>py. open_cell px py) [lo..hi]) [lo..hi])"

text \<open>Decimal digits, and the number a string of digits stands for.\<close>

definition is_digit :: "char \<Rightarrow> bool" where
  "is_digit c = (48 \<le> (of_char c :: nat) \<and> (of_char c :: nat) \<le> 57)"

definition undigits :: "string \<Rightarrow> nat" where
  "undigits cs = foldl (\<lambda>a c. 10 * a + (of_char c - 48)) 0 cs"

text \<open>Two agent updates of the scenarios: a first sighting, and a battery report.\<close>

definition r1_sighting :: jsobj where
  "r1_sighting = [''id'' \<mapsto> JStr ''r1'', ''x'' \<mapsto> JNum 250, ''y'' \<mapsto> JNum 250]"

definition r1_battery :: jsobj where
  "r1_battery = [''id'' \<mapsto> JStr ''r1'', ''battery'' \<mapsto> JNum 30]"

text \<open>A hazard report of the scenarios.\<close>

definition storm_h1 :: jsobj where
  "storm_h1 = [''id'' \<mapsto> JStr ''h1'', ''x'' \<mapsto> JNum 3, ''y'' \<mapsto> JNum 4, ''type'' \<mapsto> JStr ''storm'']"

text \<open>
  What the redraws of a callback get to see: the values of the variables at each call
  of \<open>render\<close> and \<open>renderAgents\<close>, in order.
\<close>

fun observed :: "effect list \<Rightarrow> state list" where
  "observed [] = []"
| "observed (Render t # es) = t # observed es"
| "observed (RenderAgents t # es) = t # observed es"
| "observed (e # es) = observed es"








text \<open>Agreement of two canvases: on what was drawn, and on parts of the context.\<close>

definition same_ops :: "canvas \<Rightarrow> canvas \<Rightarrow> bool" where
  "same_ops a b = (snd a = snd b)"

definition same_fill :: "canvas \<Rightarrow> canvas \<Rightarrow> bool" where
  "same_fill a b = (snd a = snd b \<and> fillStyle (fst a) = fillStyle (fst b))"

definition same_but_path :: "canvas \<Rightarrow> canvas \<Rightarrow> bool" where
  "same_but_path a b =
     (snd a = snd b \<and> fillStyle (fst a) = fillStyle (fst b) \<and>
      strokeStyle (fst a) = strokeStyle (fst b) \<and> lineWidth (fst a) = lineWidth (fst b))"

text \<open>
  A session: an agent is sighted and selected, a resource, a hazard and an explored cell
  are reported, then the chunk arrives and the agent reports its battery.
\<close>

definition busy_prefix :: "event list" where
  "busy_prefix =
     [SocketOpen, ConfirmStart ''mission.json'',
      SocketMessage (AgentUpdate r1_sighting),
      AgentItemClick 0,
      SocketMessage (ResourceDiscovered [''id'' \<mapsto> JStr ''w1'', ''x'' \<mapsto> JNum 210, ''y'' \<mapsto> JNum 220]),
      SocketMessage (HazardDetected storm_h1),
      SocketMessage (CellExplored 201 202)]"

definition busy_events :: "event list" where
  "busy_events =
     busy_prefix @ [SocketMessage (FullMapInit (square_chunk 200 299)),
                    SocketMessage (AgentUpdate r1_battery)]"

section \<open>Viewport clamping is idempotent\<close>

lemma clamp_twice:
  fixes lo hi v :: int
  shows "max lo (min (max lo (min v hi)) hi) = max lo (min v hi)"
  by (simp add: max_def min_def)

lemma clampViewport_unloaded:
  "mapMaxX s = 0 \<and> mapMinX s = MAP_SIZE_CELLS \<Longrightarrow>
     clampViewport px py s = s\<lparr> viewportX := 0, viewportY := 0 \<rparr>"
  by (simp add: clampViewport_def Let_def)

lemma clampViewport_loaded:
  "\<not> (mapMaxX s = 0 \<and> mapMinX s = MAP_SIZE_CELLS) \<Longrightarrow>
     clampViewport px py s =
       s\<lparr> viewportX := max (mapMinX s) (min px (mapMaxX s - VIEWPORT_SIZE_CELLS + 1)),
          viewportY := max (mapMinY s) (min py (mapMaxY s - VIEWPORT_SIZE_CELLS + 1)) \<rparr>"
  by (simp only: clampViewport_def Let_def if_False)

text \<open>
  C2. Clamping a candidate origin and then clamping the origin that resulted gives the
  same state as the first clamp alone, for every candidate and every value of the
  bounds (loaded, the unloaded sentinel, or anything else).
\<close>

theorem clampViewport_idempotent:
  "clampViewport (viewportX (clampViewport px py s)) (viewportY (clampViewport px py s))
     (clampViewport px py s) = clampViewport px py s"
proof (cases "mapMaxX s = 0 \<and> mapMinX s = MAP_SIZE_CELLS")
  case True
  then show ?thesis by (simp add: clampViewport_unloaded)
next
  case False
  then show ?thesis by (simp add: clampViewport_loaded clamp_twice)
qed

section \<open>Reconnection back-off\<close>

text \<open>The callbacks of the events, and the handlers of the frames.\<close>

lemmas handler_defs =
  onload_def connectWebSocket_def onopen_def onerror_def onclose_def
  startSimulation_def cancelStartSimulation_def confirmStartSimulation_def
  toggleSimulation_def sendCommand_def resetSimulation_def agentItemClick_def canvasClick_def
  selectAgent_def mousedown_def mouseup_def mousemove_def keydown_def tick_def

lemmas message_defs =
  initializeFullMap_def updateMapCell_def updateAgent_def addResource_def
  addHazard_def markCellExplored_def

lemma fold_load_cell_attempts: "reconnectAttempts (fold load_cell cells s) = reconnectAttempts s"
  by (induction cells arbitrary: s) (simp_all add: load_cell_def)

lemma reconnectAttempts_handleMessage:
  "reconnectAttempts (fst (handleMessage m s)) = reconnectAttempts s"
  by (cases m)
     (simp_all add: message_defs fold_load_cell_attempts Let_def split: option.split)

lemma reconnectAttempts_step:
  "reconnectAttempts (fst (step e s)) =
     (if e = SocketOpen then 0
      else if e = SocketClose then reconnectAttempts s + 1
      else reconnectAttempts s)"
  by (cases e)
     (simp_all add: reconnectAttempts_handleMessage handler_defs
        clampViewport_def Let_def split: option.split key.split)

lemma reconnectAttempts_run:
  "SocketOpen \<notin> set es \<Longrightarrow>
     reconnectAttempts (run es s) = reconnectAttempts s + count_list es SocketClose"
  by (induction es arbitrary: s) (auto simp: reconnectAttempts_step)

lemma reconnect_delay_capped: "4 \<le> n \<Longrightarrow> reconnect_delay (Suc n) = 5000"
proof -
  assume "4 \<le> n"
  then have "(2::int) ^ 4 \<le> 2 ^ n" by (intro power_increasing) simp_all
  then have "(5000::int) \<le> 500 * 2 ^ n" by simp
  then show ?thesis by (simp add: reconnect_delay_def maxReconnectDelay_def)
qed

text \<open>
  C6. After a successful open the attempt counter is zero. Whatever happens next, as long
  as the socket does not open again, each close increments the counter and schedules
  the reconnect after \<open>min(500 * 2^(attempts - 1), 5000)\<close> ms, where \<open>attempts\<close> counts
  the closes since the open, this one included. The first six delays are 500, 1000,
  2000, 4000, 5000, 5000, and every delay from the fifth close on is 5000.
\<close>

theorem reconnect_delays:
  assumes "SocketOpen \<notin> set es"
  shows "reconnectAttempts (fst (onopen s)) = 0 \<and>
         reconnectAttempts (fst (onclose (run es (fst (onopen s))))) = count_list es SocketClose + 1 \<and>
         snd (onclose (run es (fst (onopen s)))) =
           [SetTimeout (min (500 * 2 ^ count_list es SocketClose) 5000)] \<and>
         map (\<lambda>n. min (500 * 2 ^ n) (5000::int)) [0, 1, 2, 3, 4, 5] =
           [500, 1000, 2000, 4000, 5000, 5000] \<and>
         snd (onclose (run (es @ replicate 4 SocketClose) (fst (onopen s)))) = [SetTimeout 5000]"
proof -
  have open0: "reconnectAttempts (fst (onopen s)) = 0"
    by (simp add: onopen_def)
  have n: "reconnectAttempts (run es (fst (onopen s))) = count_list es SocketClose"
    using assms by (simp add: reconnectAttempts_run open0)
  have "SocketOpen \<notin> set (es @ replicate 4 SocketClose)" using assms by auto
  then have "reconnectAttempts (run (es @ replicate 4 SocketClose) (fst (onopen s))) =
             count_list (es @ replicate 4 SocketClose) SocketClose"
    using reconnectAttempts_run [of "es @ replicate 4 SocketClose" "fst (onopen s)"] open0
    by simp
  then have m: "4 \<le> reconnectAttempts (run (es @ replicate 4 SocketClose) (fst (onopen s)))"
    by (simp add: numeral_eq_Suc)
  show ?thesis
    using open0 n reconnect_delay_capped [OF m]
    by (simp add: onclose_def Let_def reconnect_delay_def maxReconnectDelay_def)
qed

theorem reconnect_delays_witness:
  "SocketOpen \<notin> set [SocketClose, Connect False, SocketClose] \<and>
   snd (onclose (run [SocketClose, Connect False, SocketClose] (fst (onopen initial_state)))) =
     [SetTimeout 2000]"
  using reconnect_delays [of "[SocketClose, Connect False, SocketClose]" initial_state]
  by simp

section \<open>Cell keys\<close>

lemma is_digit_char_of: "d < 10 \<Longrightarrow> is_digit (char_of (48 + d :: nat))"
  by (simp add: is_digit_def)

lemma digits_all_digit: "list_all is_digit (digits n)"
proof (induction n rule: digits.induct)
  case (1 n)
  show ?case
  proof (cases "n < 10")
    case True
    then show ?thesis by (subst digits.simps) (simp add: is_digit_char_of)
  next
    case False
    with 1 show ?thesis by (subst digits.simps) (simp add: is_digit_char_of)
  qed
qed

lemma undigits_digits: "undigits (digits n) = n"
proof (induction n rule: digits.induct)
  case (1 n)
  show ?case
  proof (cases "n < 10")
    case True
    then show ?thesis by (subst digits.simps) (simp add: undigits_def)
  next
    case False
    then have "undigits (digits (n div 10)) = n div 10" using 1 by simp
    moreover have "(of_char (char_of (48 + n mod 10 :: nat)) :: nat) = 48 + n mod 10"
      by simp
    ultimately show ?thesis using False
      by (subst digits.simps) (simp add: undigits_def)
  qed
qed

lemma digits_inj: "digits m = digits n \<Longrightarrow> m = n"
  by (metis undigits_digits)

lemma minus_not_digit: "\<not> is_digit CHR ''-''"
  by (simp add: is_digit_def)

lemma comma_not_digit: "\<not> is_digit CHR '',''"
  by (simp add: is_digit_def)

lemma digits_hd_not_minus: "digits n \<noteq> CHR ''-'' # cs"
proof
  assume "digits n = CHR ''-'' # cs"
  with digits_all_digit [of n] show False by (simp add: minus_not_digit)
qed

lemma show_int_inj: "show_int i = show_int j \<Longrightarrow> i = j"
  by (auto simp: show_int_def digits_hd_not_minus digits_hd_not_minus [symmetric]
      split: if_splits dest!: digits_inj)

lemma comma_notin_show_int: "CHR '','' \<notin> set (show_int i)"
proof -
  have "CHR '','' \<notin> set (digits n)" for n
    using digits_all_digit [of n] comma_not_digit by (auto simp: list_all_iff)
  then show ?thesis by (simp add: show_int_def)
qed

lemma split_at_separator:
  "c \<notin> set xs \<Longrightarrow> c \<notin> set xs' \<Longrightarrow> xs @ c # ys = xs' @ c # ys' \<Longrightarrow> xs = xs' \<and> ys = ys'"
proof (induction xs arbitrary: xs')
  case Nil
  then show ?case by (cases xs') auto
next
  case (Cons a xs)
  then show ?case by (cases xs') auto
qed

lemma cell_key_inj: "cell_key px py = cell_key qx qy \<longleftrightarrow> px = qx \<and> py = qy"
proof
  assume "cell_key px py = cell_key qx qy"
  then have "show_int px = show_int qx \<and> show_int py = show_int qy"
    unfolding cell_key_def
    by (intro split_at_separator [where c = "CHR '',''"]) (simp_all add: comma_notin_show_int)
  then show "px = qx \<and> py = qy" by (simp add: show_int_inj)
qed simp

lemma cell_key_example: "cell_key 12 (- 7) = ''12,-7''"
  by code_simp

section \<open>Loading a chunk\<close>

lemma chunk_table_Nil: "chunk_table [] = Map.empty"
  by (simp add: chunk_table_def)

lemma chunk_table_Cons:
  "m ++ chunk_table (c # cs) = m(cell_key (cell_x c) (cell_y c) \<mapsto> c) ++ chunk_table cs"
  by (simp add: chunk_table_def map_add_assoc [symmetric])



lemma dom_chunk_table:
  "dom (chunk_table cells) = (\<lambda>c. cell_key (cell_x c) (cell_y c)) ` set cells"
  by (simp add: chunk_table_def dom_map_of_conv_image_fst image_image)

lemma Min_insert_min:
  fixes a b :: int
  assumes "finite S"
  shows "Min (insert (min a b) S) = Min (insert a (insert b S))"
  using assms by (cases "S = {}") (simp_all add: min.assoc)

lemma Max_insert_max:
  fixes a b :: int
  assumes "finite S"
  shows "Max (insert (max a b) S) = Max (insert a (insert b S))"
  using assms by (cases "S = {}") (simp_all add: max.assoc)

lemma fold_load_cell:
  "fold load_cell cells s =
     s\<lparr> mapCells := mapCells s ++ chunk_table cells,
        mapMinX := Min (insert (mapMinX s) (cell_x ` set cells)),
        mapMinY := Min (insert (mapMinY s) (cell_y ` set cells)),
        mapMaxX := Max (insert (mapMaxX s) (cell_x ` set cells)),
        mapMaxY := Max (insert (mapMaxY s) (cell_y ` set cells)) \<rparr>"
proof (induction cells arbitrary: s)
  case Nil
  show ?case by (simp add: chunk_table_Nil)
next
  case (Cons c cs)
  have "fold load_cell (c # cs) s = fold load_cell cs (load_cell c s)" by simp
  also have "\<dots> = (load_cell c s)\<lparr> mapCells := mapCells (load_cell c s) ++ chunk_table cs,
        mapMinX := Min (insert (mapMinX (load_cell c s)) (cell_x ` set cs)),
        mapMinY := Min (insert (mapMinY (load_cell c s)) (cell_y ` set cs)),
        mapMaxX := Max (insert (mapMaxX (load_cell c s)) (cell_x ` set cs)),
        mapMaxY := Max (insert (mapMaxY (load_cell c s)) (cell_y ` set cs)) \<rparr>"
    by (rule Cons.IH)
  also have "\<dots> = s\<lparr> mapCells := mapCells s ++ chunk_table (c # cs),
        mapMinX := Min (insert (mapMinX s) (cell_x ` set (c # cs))),
        mapMinY := Min (insert (mapMinY s) (cell_y ` set (c # cs))),
        mapMaxX := Max (insert (mapMaxX s) (cell_x ` set (c # cs))),
        mapMaxY := Max (insert (mapMaxY s) (cell_y ` set (c # cs))) \<rparr>"
    by (simp add: load_cell_def chunk_table_Cons Min_insert_min Max_insert_max)
  finally show ?case .
qed

text \<open>The state after a chunk that is not empty.\<close>

lemma initializeFullMap_nonempty_state:
  assumes "cells \<noteq> []"
  shows "fst (initializeFullMap cells s) =
     s\<lparr> mapCells := chunk_table cells,
        mapMinX := min MAP_SIZE_CELLS (Min (cell_x ` set cells)),
        mapMinY := min MAP_SIZE_CELLS (Min (cell_y ` set cells)),
        mapMaxX := max 0 (Max (cell_x ` set cells)),
        mapMaxY := max 0 (Max (cell_y ` set cells)),
        viewportX := min MAP_SIZE_CELLS (Min (cell_x ` set cells)),
        viewportY := min MAP_SIZE_CELLS (Min (cell_y ` set cells)) \<rparr>"
  using assms by (simp add: initializeFullMap_def Let_def fold_load_cell)


section \<open>Cell updates for coordinates outside the table\<close>

text \<open>
  C8. A \<open>map_cell_update\<close> frame for a coordinate whose key is not in the cell table
  changes no variable and has no effect at all: the table keeps its keys and size, no
  redraw is requested and nothing is raised.
\<close>

theorem updateMapCell_unknown_coordinate:
  assumes "cell_key px py \<notin> dom (mapCells s)"
  shows "handleMessage (MapCellUpdate px py updates) s = (s, []) \<and>
         updateMapCell px py updates s = (s, [])"
proof -
  from assms have "mapCells s (cell_key px py) = None" by (simp add: domIff)
  then show ?thesis by (simp add: updateMapCell_def)
qed

theorem updateMapCell_unknown_coordinate_witness:
  "cell_key 7 7 \<notin> dom (mapCells (fst (handleMessage (FullMapInit [open_cell 5 5]) initial_state))) \<and>
   handleMessage (MapCellUpdate 7 7 \<lparr> upd_x = None, upd_y = None,
       upd_fields = [''dust_storm'' \<mapsto> JBool True] \<rparr>)
     (fst (handleMessage (FullMapInit [open_cell 5 5]) initial_state)) =
   (fst (handleMessage (FullMapInit [open_cell 5 5]) initial_state), [])"
proof -
  have "cell_key 7 7 \<notin> dom (mapCells (fst (handleMessage (FullMapInit [open_cell 5 5]) initial_state)))"
    by (simp add: initializeFullMap_nonempty_state dom_chunk_table cell_key_inj open_cell_def)
  then show ?thesis
    using updateMapCell_unknown_coordinate [of 7 7
        "fst (handleMessage (FullMapInit [open_cell 5 5]) initial_state)"]
    by simp
qed

section \<open>Hazards\<close>

lemma find_None_ids: "find (\<lambda>k. same_id k h) hs = None \<longleftrightarrow> (\<forall>k \<in> set hs. k ''id'' \<noteq> h ''id'')"
  by (auto simp: find_None_iff same_id_def)

text \<open>
  C5 (as amended). In public/main.js the handler of a \<open>hazard_detected\<close> frame only
  logs an alert and redraws: it changes no variable, so it never creates a second
  entry and never overwrites one, and it creates no entry for an unknown id either. In
  the earlier iteration of the client, which keeps the hazards, an unknown id appends
  exactly one entry (the hazard as received), changes nothing else, logs an alert and
  redraws; a known id changes nothing and only redraws.
\<close>

theorem addHazard_variants:
  shows "fst (handleMessage (HazardDetected hazard) s) = s \<and>
         snd (handleMessage (HazardDetected hazard) s) = [AddMessage ''Alert'', Render s] \<and>
         ((\<forall>k \<in> set (hazards s). k ''id'' \<noteq> hazard ''id'') \<longrightarrow>
            fst (addHazard_stored hazard s) = s\<lparr> hazards := hazards s @ [hazard] \<rparr> \<and>
            snd (addHazard_stored hazard s) =
              [AddMessage ''Alert'', Render (s\<lparr> hazards := hazards s @ [hazard] \<rparr>)]) \<and>
         ((\<exists>k \<in> set (hazards s). k ''id'' = hazard ''id'') \<longrightarrow>
            fst (addHazard_stored hazard s) = s \<and>
            snd (addHazard_stored hazard s) = [Render s])"
proof (intro conjI impI)
  show "fst (handleMessage (HazardDetected hazard) s) = s"
    by (simp add: addHazard_def)
  show "snd (handleMessage (HazardDetected hazard) s) = [AddMessage ''Alert'', Render s]"
    by (simp add: addHazard_def)
next
  assume "\<forall>k \<in> set (hazards s). k ''id'' \<noteq> hazard ''id''"
  then have none: "find (\<lambda>k. same_id k hazard) (hazards s) = None"
    by (simp add: find_None_ids)
  show "fst (addHazard_stored hazard s) = s\<lparr> hazards := hazards s @ [hazard] \<rparr>"
    using none by (simp add: addHazard_stored_def Let_def)
  show "snd (addHazard_stored hazard s) =
          [AddMessage ''Alert'', Render (s\<lparr> hazards := hazards s @ [hazard] \<rparr>)]"
    using none by (simp add: addHazard_stored_def Let_def)
next
  assume "\<exists>k \<in> set (hazards s). k ''id'' = hazard ''id''"
  then have "find (\<lambda>k. same_id k hazard) (hazards s) \<noteq> None" by (simp add: find_None_ids)
  then obtain k where some: "find (\<lambda>k. same_id k hazard) (hazards s) = Some k" by blast
  show "fst (addHazard_stored hazard s) = s"
    using some by (simp add: addHazard_stored_def)
  show "snd (addHazard_stored hazard s) = [Render s]"
    using some by (simp add: addHazard_stored_def)
qed

theorem addHazard_variants_witness:
  "hazards (fst (addHazard_stored storm_h1 initial_state)) = [storm_h1] \<and>
   fst (addHazard_stored storm_h1 (fst (addHazard_stored storm_h1 initial_state))) =
     fst (addHazard_stored storm_h1 initial_state) \<and>
   snd (addHazard_stored storm_h1 (fst (addHazard_stored storm_h1 initial_state))) =
     [Render (fst (addHazard_stored storm_h1 initial_state))] \<and>
   handleMessage (HazardDetected storm_h1) initial_state =
     (initial_state, [AddMessage ''Alert'', Render initial_state])"
proof -
  have 1: "fst (addHazard_stored storm_h1 initial_state) = initial_state\<lparr> hazards := [storm_h1] \<rparr>"
    using addHazard_variants [of storm_h1 initial_state] by (simp add: initial_state_def)
  have 2: "fst (addHazard_stored storm_h1 (initial_state\<lparr> hazards := [storm_h1] \<rparr>)) =
             initial_state\<lparr> hazards := [storm_h1] \<rparr> \<and>
           snd (addHazard_stored storm_h1 (initial_state\<lparr> hazards := [storm_h1] \<rparr>)) =
             [Render (initial_state\<lparr> hazards := [storm_h1] \<rparr>)]"
    using addHazard_variants [of storm_h1 "initial_state\<lparr> hazards := [storm_h1] \<rparr>"] by simp
  have 3: "fst (handleMessage (HazardDetected storm_h1) initial_state) = initial_state \<and>
           snd (handleMessage (HazardDetected storm_h1) initial_state) =
             [AddMessage ''Alert'', Render initial_state]"
    using addHazard_variants [of storm_h1 initial_state] by blast
  have 4: "handleMessage (HazardDetected storm_h1) initial_state =
             (initial_state, [AddMessage ''Alert'', Render initial_state])"
    using 3 by (simp add: prod_eq_iff)
  show ?thesis using 2 4 by (simp add: 1)
qed

theorem hazard_detected_stores_nothing_counterexample:
  "hazards initial_state = [] \<and>
   length (hazards (fst (handleMessage (HazardDetected storm_h1) initial_state))) \<noteq> 1"
  by (simp add: addHazard_def initial_state_def)

section \<open>Agent upsert\<close>


lemma findIndex_Some:
  "findIndex P xs = Some i \<longleftrightarrow> i < length xs \<and> P (xs ! i) \<and> (\<forall>j < i. \<not> P (xs ! j))"
proof (induction xs arbitrary: i)
  case Nil
  then show ?case by simp
next
  case (Cons a as)
  show ?case
  proof (cases "P a")
    case True
    then show ?thesis by (cases i) auto
  next
    case False
    show ?thesis
    proof (cases i)
      case 0
      with False show ?thesis by auto
    next
      case (Suc k)
      have "(\<forall>j < Suc k. \<not> P ((a # as) ! j)) \<longleftrightarrow> (\<forall>j < k. \<not> P (as ! j))"
        using False by (auto simp: less_Suc_eq_0_disj)
      with False Suc Cons.IH [of k] show ?thesis by auto
    qed
  qed
qed

lemma updateAgent_not_empty: "agents (fst (updateAgent d s)) \<noteq> []"
proof (cases "findIndex (\<lambda>a. same_id a d) (agents s)")
  case None
  then show ?thesis by (simp add: updateAgent_def Let_def)
next
  case (Some i)
  then have "i < length (agents s)" by (simp add: findIndex_Some)
  then have "agents s \<noteq> []" by auto
  with Some show ?thesis by (simp add: updateAgent_def Let_def)
qed




section \<open>Replacing the chunk\<close>






section \<open>The scenario of a 100 by 100 chunk at (200, 200)\<close>

lemma square_chunk_not_Nil: "lo \<le> hi \<Longrightarrow> square_chunk lo hi \<noteq> []"
  by (simp add: square_chunk_def upto_rec1)

lemma square_chunk_xs: "lo \<le> hi \<Longrightarrow> cell_x ` set (square_chunk lo hi) = {lo..hi}"
  by (force simp: square_chunk_def open_cell_def image_iff)

lemma square_chunk_ys: "lo \<le> hi \<Longrightarrow> cell_y ` set (square_chunk lo hi) = {lo..hi}"
  by (force simp: square_chunk_def open_cell_def image_iff)

lemma square_chunk_length: "length (square_chunk lo hi) = nat (hi - lo + 1) * nat (hi - lo + 1)"
  by (simp add: square_chunk_def length_concat comp_def sum_list_triv)

lemma Min_interval:
  fixes a b :: int
  assumes "a \<le> b"
  shows "Min {a..b} = a"
  using assms by (intro Min_eqI) simp_all

lemma Max_interval:
  fixes a b :: int
  assumes "a \<le> b"
  shows "Max {a..b} = b"
  using assms by (intro Max_eqI) simp_all

lemma scenario_state:
  "fst (initializeFullMap (square_chunk 200 299) s) =
     s\<lparr> mapCells := chunk_table (square_chunk 200 299),
        mapMinX := 200, mapMinY := 200, mapMaxX := 299, mapMaxY := 299,
        viewportX := 200, viewportY := 200 \<rparr>"
  by (simp add: initializeFullMap_nonempty_state square_chunk_not_Nil square_chunk_xs
      square_chunk_ys MAP_SIZE_CELLS_def Min_interval Max_interval)

lemma scenario_clamp:
  "clampViewport px py (s\<lparr> mapCells := t, mapMinX := 200, mapMinY := 200, mapMaxX := 299,
       mapMaxY := 299, viewportX := 200, viewportY := 200 \<rparr>) =
   s\<lparr> mapCells := t, mapMinX := 200, mapMinY := 200, mapMaxX := 299,
       mapMaxY := 299, viewportX := 200, viewportY := 200 \<rparr>"
  by (simp add: clampViewport_loaded VIEWPORT_SIZE_CELLS_def)

text \<open>
  C3 (as amended). After loading the chunk whose cells are the 100 by 100 coordinates
  with \<open>x\<close> and \<open>y\<close> in 200..299, the viewport origin is (200, 200). Clamping the
  candidates (150, 200), (205, 205) and (260, 260) gives (200, 200) each time: the
  greatest origin allowed is \<open>299 - 100 + 1 = 200\<close>, which is the least one too, so
  every candidate is clamped to (200, 200) and no pan moves the viewport.
\<close>

theorem scenario_chunk_200_299:
  "(let s1 = fst (handleMessage (FullMapInit (square_chunk 200 299)) s)
    in length (square_chunk 200 299) = 100 * 100 \<and>
       (viewportX s1, viewportY s1) = (200, 200) \<and>
       (viewportX (clampViewport 150 200 s1), viewportY (clampViewport 150 200 s1)) = (200, 200) \<and>
       (viewportX (clampViewport 205 205 s1), viewportY (clampViewport 205 205 s1)) = (200, 200) \<and>
       (viewportX (clampViewport 260 260 s1), viewportY (clampViewport 260 260 s1)) = (200, 200) \<and>
       (\<forall>px py. clampViewport px py s1 = s1))"
  by (simp add: Let_def scenario_state scenario_clamp square_chunk_length)

theorem pan_205_counterexample:
  "(viewportX (clampViewport 205 205
       (fst (handleMessage (FullMapInit (square_chunk 200 299)) initial_state))),
    viewportY (clampViewport 205 205
       (fst (handleMessage (FullMapInit (square_chunk 200 299)) initial_state))))
   \<noteq> (205, 205)"
  by (simp add: scenario_state scenario_clamp)

section \<open>Reset\<close>

lemma hazards_handleMessage: "hazards (fst (handleMessage m s)) = hazards s"
  by (cases m) (simp_all add: message_defs fold_load_cell Let_def split: option.split)

lemma hazards_step: "hazards (fst (step e s)) = hazards s"
  by (cases e)
     (simp_all add: hazards_handleMessage handler_defs clampViewport_def Let_def
        split: option.split key.split)

lemma reachable_no_hazards: "reachable s \<Longrightarrow> hazards s = []"
  by (induction rule: reachable.induct) (simp_all add: initial_state_def hazards_step)

lemma run_append: "run (es @ fs) s = run fs (run es s)"
  by (induction es arbitrary: s) simp_all

lemma reachable_run: "reachable s \<Longrightarrow> reachable (run es s)"
  by (induction es arbitrary: s) (simp_all add: reachable_step)

lemma resetSimulation_state:
  "fst (resetSimulation s) =
     s\<lparr> agents := [], resources := [], exploredCells := {},
        mapCells := Map.empty, selectedAgent := None,
        viewportX := 0, viewportY := 0,
        mapMinX := 0, mapMinY := 0, mapMaxX := 0, mapMaxY := 0,
        simulationStarted := False \<rparr>"
  by (simp add: resetSimulation_def Let_def)

lemma resetSimulation_observed:
  "observed (snd (resetSimulation s)) = [fst (resetSimulation s), fst (resetSimulation s)]"
  by (simp add: resetSimulation_def Let_def)

text \<open>
  C4. In every state the client can reach, \<open>resetSimulation\<close> leaves the agents, the
  resources, the hazards, the explored set and the cell table empty, no agent selected,
  all four bounds 0 and the viewport origin (0, 0), whatever the bounds were; the two
  redraws it requests both see this final state, so no intermediate state is shown.
  (In public/main.js the reset does not assign \<open>hazards\<close>; the array is empty because
  nothing ever stores into it.) The reset of the earlier iteration of the client does
  the same from any state.
\<close>

theorem resetSimulation_clears:
  assumes "reachable s"
  shows "(let s' = fst (resetSimulation s)
          in agents s' = [] \<and> resources s' = [] \<and> hazards s' = [] \<and>
             exploredCells s' = {} \<and> mapCells s' = Map.empty \<and> selectedAgent s' = None \<and>
             mapMinX s' = 0 \<and> mapMinY s' = 0 \<and> mapMaxX s' = 0 \<and> mapMaxY s' = 0 \<and>
             viewportX s' = 0 \<and> viewportY s' = 0 \<and>
             observed (snd (resetSimulation s)) = [s', s']) \<and>
         (let t' = fst (resetSimulation_stored t)
          in agents t' = [] \<and> resources t' = [] \<and> hazards t' = [] \<and>
             exploredCells t' = {} \<and> mapCells t' = Map.empty \<and> selectedAgent t' = None \<and>
             mapMinX t' = 0 \<and> mapMinY t' = 0 \<and> mapMaxX t' = 0 \<and> mapMaxY t' = 0 \<and>
             viewportX t' = 0 \<and> viewportY t' = 0 \<and>
             observed (snd (resetSimulation_stored t)) = [t', t'])"
proof -
  have "hazards s = []" using assms by (rule reachable_no_hazards)
  then have "hazards (fst (resetSimulation s)) = []" by (simp add: resetSimulation_state)
  moreover have "observed (snd (resetSimulation_stored t)) =
      [fst (resetSimulation_stored t), fst (resetSimulation_stored t)]"
    by (simp add: resetSimulation_stored_def Let_def)
  ultimately show ?thesis
    by (simp add: Let_def resetSimulation_observed)
       (simp add: resetSimulation_state resetSimulation_stored_def Let_def)
qed

theorem resetSimulation_clears_witness:
  "reachable (run busy_events initial_state) \<and>
   agents (run busy_events initial_state) \<noteq> [] \<and>
   viewportX (run busy_events initial_state) = 200 \<and>
   agents (fst (resetSimulation (run busy_events initial_state))) = [] \<and>
   hazards (fst (resetSimulation (run busy_events initial_state))) = [] \<and>
   mapMaxX (fst (resetSimulation (run busy_events initial_state))) = 0 \<and>
   viewportX (fst (resetSimulation (run busy_events initial_state))) = 0 \<and>
   viewportY (fst (resetSimulation (run busy_events initial_state))) = 0"
proof -
  have r: "reachable (run busy_events initial_state)"
    by (intro reachable_run reachable_initial)
  have a: "agents (run busy_events initial_state) \<noteq> []"
    by (simp add: busy_events_def run_append updateAgent_not_empty)
  have v: "viewportX (run busy_events initial_state) = 200"
    by (simp add: busy_events_def run_append updateAgent_def Let_def scenario_state
        split: option.split)
  show ?thesis
    using resetSimulation_clears [OF r, of initial_state] r a v by (simp add: Let_def)
qed

section \<open>The viewport after a reset\<close>













section \<open>Rendering is a function of the state\<close>

lemma same_fill_ops: "same_fill a b \<Longrightarrow> same_ops a b"
  by (simp add: same_fill_def same_ops_def)

lemma draw_cell_same_fill:
  "same_ops a b \<Longrightarrow> same_fill (draw_cell s vx vy a) (draw_cell s vx vy b)"
  by (cases a; cases b)
     (simp add: draw_cell_def Let_def same_ops_def same_fill_def split: option.split)

lemma fold_same_fill:
  assumes stp: "\<And>v a b. same_ops a b \<Longrightarrow> same_fill (f v a) (f v b)"
  shows "same_ops a b \<Longrightarrow> same_fill (fold f (v # vs) a) (fold f (v # vs) b)"
proof (induction vs arbitrary: v a b)
  case Nil
  then show ?case by (simp add: stp)
next
  case (Cons u us)
  have "same_fill (f v a) (f v b)" using Cons.prems by (rule stp)
  then have "same_ops (f v a) (f v b)" by (rule same_fill_ops)
  then have "same_fill (fold f (u # us) (f v a)) (fold f (u # us) (f v b))" by (rule Cons.IH)
  then show ?case by simp
qed

lemma viewport_range: "[0..VIEWPORT_SIZE_CELLS - 1] = 0 # [1..VIEWPORT_SIZE_CELLS - 1]"
  by (simp add: VIEWPORT_SIZE_CELLS_def upto_rec1)

lemma grid_range: "[0..VIEWPORT_SIZE_CELLS] = 0 # [1..VIEWPORT_SIZE_CELLS]"
  by (simp add: VIEWPORT_SIZE_CELLS_def upto_rec1)

lemma draw_column_same_fill:
  "same_ops a b \<Longrightarrow>
     same_fill (fold (\<lambda>vy. draw_cell s vx vy) [0..VIEWPORT_SIZE_CELLS - 1] a)
               (fold (\<lambda>vy. draw_cell s vx vy) [0..VIEWPORT_SIZE_CELLS - 1] b)"
  unfolding viewport_range by (rule fold_same_fill) (rule draw_cell_same_fill)

lemma draw_terrain_same_fill:
  "same_ops a b \<Longrightarrow> same_fill (draw_terrain s a) (draw_terrain s b)"
  unfolding draw_terrain_def
  by (subst (2 4) viewport_range, rule fold_same_fill) (rule draw_column_same_fill)

lemma grid_line_eq: "same_but_path a b \<Longrightarrow> grid_line i a = grid_line i b"
  by (cases a; cases b) (simp add: grid_line_def same_but_path_def moveTo_def lineTo_def)

lemma draw_grid_eq: "same_fill a b \<Longrightarrow> draw_grid a = draw_grid b"
proof -
  assume ab: "same_fill a b"
  have "same_but_path (set_lineWidth 0.5 (set_strokeStyle ''#374151'' a))
          (set_lineWidth 0.5 (set_strokeStyle ''#374151'' b))"
    using ab by (cases a; cases b) (simp add: same_fill_def same_but_path_def)
  then have "grid_line 0 (set_lineWidth 0.5 (set_strokeStyle ''#374151'' a)) =
             grid_line 0 (set_lineWidth 0.5 (set_strokeStyle ''#374151'' b))"
    by (rule grid_line_eq)
  then show ?thesis by (simp add: draw_grid_def grid_range)
qed

lemma paint_independent: "paint s c = paint s c'"
proof -
  have "same_ops (clearRect 0 0 w h (c, [])) (clearRect 0 0 w h (c', []))" for w h
    by (simp add: same_ops_def)
  then have "draw_grid (draw_terrain s (clearRect 0 0 w h (c, []))) =
             draw_grid (draw_terrain s (clearRect 0 0 w h (c', [])))" for w h
    by (rule draw_grid_eq [OF draw_terrain_same_fill])
  then show ?thesis by (simp add: paint_def)
qed

text \<open>
  C9. A call of \<open>render\<close>, from the timer or from a callback that has just changed the
  state, leaves every variable as it was. What it draws, and the context it leaves,
  depend on the variables alone: whatever styles and path an earlier call left in the
  canvas context, the same variables give the same sequence of drawing operations. The
  timer's callback does nothing but this call.
\<close>

theorem render_reads_only:
  "fst (render (s, c)) = s \<and>
   snd (render (s, c)) = snd (render (s, c')) \<and>
   tick s = (s, [Render s])"
  using paint_independent [of s c c'] by (simp add: render_def tick_def)

end
